theory Spec2Isabelle
  imports Main "HOL-Library.Sublist" "HOL-Library.AList"
begin

section \<open>Strings of the platform\<close>

text \<open>
  Strings are modelled as \<open>string\<close>, one \<open>char\<close> per code unit, and the model is meant
  for ASCII text: host names produced by the URL parser and the serialised URLs of history
  records are ASCII. \<open>toLowerCase\<close> maps \<open>A\<close>..\<open>Z\<close> to \<open>a\<close>..\<open>z\<close> and leaves every other
  character alone.
\<close>

definition lower_char :: "char \<Rightarrow> char" where
  "lower_char c =
     (case map_of (zip ''ABCDEFGHIJKLMNOPQRSTUVWXYZ'' ''abcdefghijklmnopqrstuvwxyz'') c of
        Some l \<Rightarrow> l
      | None \<Rightarrow> c)"

definition toLowerCase :: "string \<Rightarrow> string" where
  "toLowerCase s = map lower_char s"

text \<open>\<open>s.includes(p)\<close>: \<open>p\<close> occurs in \<open>s\<close> at some position.\<close>

fun str_includes :: "string \<Rightarrow> string \<Rightarrow> bool" where
  "str_includes [] p = (p = [])"
| "str_includes (c # s) p = (prefix p (c # s) \<or> str_includes s p)"

text \<open>\<open>s.replace(/c/g, r)\<close> for a single character \<open>c\<close>, and for a class of characters
  with the replacement \<open>\\$&\<close> (a backslash followed by the matched character).\<close>

definition backslash :: char where
  "backslash = CHR 0x5C"

definition replace_char :: "char \<Rightarrow> string \<Rightarrow> string \<Rightarrow> string" where
  "replace_char c r s = concat (map (\<lambda>x. if x = c then r else [x]) s)"

definition escape_chars :: "char set \<Rightarrow> string \<Rightarrow> string" where
  "escape_chars cs s = concat (map (\<lambda>x. if x \<in> cs then [backslash, x] else [x]) s)"

section \<open>Regular expressions of the platform\<close>

text \<open>
  \<open>new RegExp(source)\<close> and \<open>regex.test(input)\<close> belong to the platform. They are modelled
  for the fragment of the pattern syntax that the rule matcher can be shown to stay in:
  pattern characters, identity escapes of syntax characters, the dot, the quantifiers
  \<open>*\<close>, \<open>+\<close>, \<open>?\<close> (optionally followed by the lazy marker \<open>?\<close>, which does not change
  whether a match exists) and the assertions \<open>^\<close> and \<open>$\<close>. A call has one of three
  outcomes: it returns, it throws (a \<open>SyntaxError\<close> of \<open>new RegExp\<close>), or it leaves the
  modelled fragment (groups, classes, alternation, braces, other escapes).
\<close>

datatype 'a outcome = Returns 'a | Throws | Unmodelled

datatype atom = Lit char | AnyChar

datatype quant = Once | Star | Plus | Opt

datatype rterm = AssertStart | AssertEnd | Rep atom quant

type_synonym regex = "rterm list"

definition syntax_chars :: "char set" where
  "syntax_chars = set ''^$.*+?()[]{}|'' \<union> {backslash}"

definition line_terminator :: "char \<Rightarrow> bool" where
  "line_terminator c = (c = CHR 0x0A \<or> c = CHR 0x0D)"

fun lazy_marker :: "string \<Rightarrow> string" where
  "lazy_marker [] = []"
| "lazy_marker (c # r) = (if c = CHR ''?'' then r else c # r)"

fun quantifier :: "string \<Rightarrow> quant \<times> string" where
  "quantifier [] = (Once, [])"
| "quantifier (c # r) =
     (if c = CHR ''*'' then (Star, lazy_marker r)
      else if c = CHR ''+'' then (Plus, lazy_marker r)
      else if c = CHR ''?'' then (Opt, lazy_marker r)
      else (Once, c # r))"

lemma lazy_marker_length: "length (lazy_marker s) \<le> length s"
  by (cases s) auto

lemma quantifier_length: "length (snd (quantifier s)) \<le> length s"
  using lazy_marker_length [of "tl s"]
  by (cases s) auto

definition and_then :: "rterm \<Rightarrow> regex outcome \<Rightarrow> regex outcome" where
  "and_then t k = (case k of Returns ts \<Rightarrow> Returns (t # ts) | Throws \<Rightarrow> Throws | Unmodelled \<Rightarrow> Unmodelled)"

function RegExp :: "string \<Rightarrow> regex outcome" where
  "RegExp [] = Returns []"
| "RegExp (c # r) =
     (if c = CHR ''^'' then and_then AssertStart (RegExp r)
      else if c = CHR ''$'' then and_then AssertEnd (RegExp r)
      else if c = CHR ''*'' \<or> c = CHR ''+'' \<or> c = CHR ''?'' then Throws
      else if c = backslash then
        (case r of
           [] \<Rightarrow> Throws
         | e # r' \<Rightarrow>
             if e \<in> syntax_chars
             then and_then (Rep (Lit e) (fst (quantifier r'))) (RegExp (snd (quantifier r')))
             else Unmodelled)
      else if c = CHR ''.'' then and_then (Rep AnyChar (fst (quantifier r))) (RegExp (snd (quantifier r)))
      else if c \<in> syntax_chars then Unmodelled
      else and_then (Rep (Lit c) (fst (quantifier r))) (RegExp (snd (quantifier r))))"
  by pat_completeness auto
termination
proof (relation "measure length")
  show "wf (measure length)" by simp
qed (auto simp: less_Suc_eq_le quantifier_length intro: le_SucI)


text \<open>
  Matching. \<open>accepts ts b s\<close>: the terms \<open>ts\<close> match a prefix of the remaining input \<open>s\<close>,
  where \<open>b\<close> says that nothing of the input has been consumed yet (the position is the
  start of the input). The dot matches every character but a line terminator. Without a
  flag, \<open>^\<close> holds only at the start of the input and \<open>$\<close> only at its end.
\<close>

fun atom_ok :: "atom \<Rightarrow> char \<Rightarrow> bool" where
  "atom_ok (Lit x) c = (c = x)"
| "atom_ok AnyChar c = (\<not> line_terminator c)"

fun accepts :: "regex \<Rightarrow> bool \<Rightarrow> string \<Rightarrow> bool" where
  "accepts [] b s = True"
| "accepts (AssertStart # ts) b s = (b \<and> accepts ts b s)"
| "accepts (AssertEnd # ts) b s = (s = [] \<and> accepts ts b s)"
| "accepts (Rep a Once # ts) b [] = False"
| "accepts (Rep a Once # ts) b (c # cs) = (atom_ok a c \<and> accepts ts False cs)"
| "accepts (Rep a Opt # ts) b [] = accepts ts b []"
| "accepts (Rep a Opt # ts) b (c # cs) =
     ((atom_ok a c \<and> accepts ts False cs) \<or> accepts ts b (c # cs))"
| "accepts (Rep a Star # ts) b [] = accepts ts b []"
| "accepts (Rep a Star # ts) b (c # cs) =
     ((atom_ok a c \<and> accepts (Rep a Star # ts) False cs) \<or> accepts ts b (c # cs))"
| "accepts (Rep a Plus # ts) b [] = False"
| "accepts (Rep a Plus # ts) b (c # cs) = (atom_ok a c \<and> accepts (Rep a Star # ts) False cs)"

text \<open>\<open>regex.test(s)\<close> looks for a match starting at any position of the input.\<close>

fun search :: "regex \<Rightarrow> bool \<Rightarrow> string \<Rightarrow> bool" where
  "search ts b [] = accepts ts b []"
| "search ts b (c # cs) = (accepts ts b (c # cs) \<or> search ts False cs)"

definition RegExp_test :: "string \<Rightarrow> string \<Rightarrow> bool outcome" where
  "RegExp_test source s =
     (case RegExp source of
        Returns ts \<Rightarrow> Returns (search ts True s)
      | Throws \<Rightarrow> Throws
      | Unmodelled \<Rightarrow> Unmodelled)"

section \<open>The blacklist rule matcher (config.js, class Blacklist)\<close>

record rules =
  domains :: "string list"
  patterns :: "string list"

text \<open>\<open>_matchDomain(hostname, pattern)\<close>\<close>

definition matchDomain :: "string \<Rightarrow> string \<Rightarrow> bool outcome" where
  "matchDomain hostname pattern =
     (if hostname = pattern then Returns True
      else if CHR ''*'' \<in> set pattern then
        (let regexPattern =
               replace_char (CHR ''*'') ''.*''
                 (replace_char (CHR ''.'') [backslash, CHR ''.''] pattern)
         in RegExp_test (''^'' @ regexPattern @ ''$'') hostname)
      else Returns False)"

text \<open>\<open>_matchPattern(url, pattern)\<close>; the escaped class is \<open>[.+?^${}()|[\]\\]\<close>.\<close>

definition escaped_specials :: "char set" where
  "escaped_specials = set ''.+?^${}()|[]'' \<union> {backslash}"

definition matchPattern :: "string \<Rightarrow> string \<Rightarrow> bool outcome" where
  "matchPattern url pattern =
     (if CHR ''*'' \<notin> set pattern then Returns (str_includes url pattern)
      else
        (let regexPattern =
               replace_char (CHR ''*'') ''.*'' (escape_chars escaped_specials pattern)
         in RegExp_test regexPattern url))"

text \<open>
  \<open>matches(url)\<close>. \<open>new URL(url).hostname\<close> belongs to the platform and is a parameter:
  \<open>P url\<close> is the host name of \<open>url\<close>, or \<open>None\<close> when the constructor throws. The two
  loops return at the first rule that matches; whatever is thrown inside the \<open>try\<close> block
  is caught and answered with \<open>false\<close>.
\<close>

fun check_domains :: "string \<Rightarrow> string list \<Rightarrow> bool outcome" where
  "check_domains hostname [] = Returns False"
| "check_domains hostname (domainPattern # ds) =
     (case matchDomain hostname (toLowerCase domainPattern) of
        Returns True \<Rightarrow> Returns True
      | Returns False \<Rightarrow> check_domains hostname ds
      | Throws \<Rightarrow> Throws
      | Unmodelled \<Rightarrow> Unmodelled)"

fun check_patterns :: "string \<Rightarrow> string list \<Rightarrow> bool outcome" where
  "check_patterns fullUrl [] = Returns False"
| "check_patterns fullUrl (urlPattern # ps) =
     (case matchPattern fullUrl (toLowerCase urlPattern) of
        Returns True \<Rightarrow> Returns True
      | Returns False \<Rightarrow> check_patterns fullUrl ps
      | Throws \<Rightarrow> Throws
      | Unmodelled \<Rightarrow> Unmodelled)"

definition matches :: "(string \<Rightarrow> string option) \<Rightarrow> rules \<Rightarrow> string \<Rightarrow> bool outcome" where
  "matches P rs url =
     (case P url of
        None \<Rightarrow> Returns False
      | Some host \<Rightarrow>
          (let hostname = toLowerCase host; fullUrl = toLowerCase url in
           case check_domains hostname (domains rs) of
             Returns True \<Rightarrow> Returns True
           | Throws \<Rightarrow> Returns False
           | Unmodelled \<Rightarrow> Unmodelled
           | Returns False \<Rightarrow>
               (case check_patterns fullUrl (patterns rs) of
                  Returns True \<Rightarrow> Returns True
                | Returns False \<Rightarrow> Returns False
                | Throws \<Rightarrow> Returns False
                | Unmodelled \<Rightarrow> Unmodelled)))"

text \<open>
  An instance of the parameter \<open>P\<close> for concrete inputs: the host names of a few URLs, as
  the platform's parser reports them; every other string is rejected.
\<close>

definition example_urls :: "string \<Rightarrow> string option" where
  "example_urls =
     map_of [(''https://example.com/'', ''example.com''),
             (''https://www.example.co.uk/'', ''www.example.co.uk''),
             (''https://blog.example.com/post'', ''blog.example.com''),
             (''https://site.com/app/login?x=1'', ''site.com''),
             (''https://site.com/app/logout'', ''site.com'')]"

section \<open>Wildcard rules as the specification reads them\<close>





definition pattern_source :: "string \<Rightarrow> string" where
  "pattern_source pattern =
     replace_char (CHR ''*'') ''.*'' (escape_chars escaped_specials pattern)"



definition domain_body :: "string \<Rightarrow> string" where
  "domain_body p = replace_char (CHR 0x2A) ''.*'' (replace_char (CHR ''.'') [backslash, CHR ''.''] p)"

section \<open>Root domains (statistics page, getRootDomain)\<close>

text \<open>\<open>s.split(c)\<close> for a one-character separator, \<open>parts.join(sep)\<close> and
  \<open>parts.slice(-n)\<close>.\<close>

fun split_on :: "char \<Rightarrow> string \<Rightarrow> string list" where
  "split_on c [] = [[]]"
| "split_on c (x # xs) =
     (if x = c then [] # split_on c xs
      else (case split_on c xs of [] \<Rightarrow> [[x]] | p # ps \<Rightarrow> (x # p) # ps))"

fun join :: "string \<Rightarrow> string list \<Rightarrow> string" where
  "join sep [] = []"
| "join sep [p] = p"
| "join sep (p # q # ps) = p @ sep @ join sep (q # ps)"

definition slice_last :: "nat \<Rightarrow> 'a list \<Rightarrow> 'a list" where
  "slice_last n xs = drop (length xs - n) xs"

definition second_level_labels :: "string list" where
  "second_level_labels = [''co'', ''com'', ''org'', ''ac'', ''gov'', ''edu'', ''net'']"

text \<open>
  \<open>getRootDomain(url)\<close>; \<open>P\<close> is the platform's \<open>new URL(url).hostname\<close> as before, and
  \<open>None\<close> is the \<open>null\<close> of the \<open>catch\<close> block.
\<close>

definition getRootDomain :: "(string \<Rightarrow> string option) \<Rightarrow> string \<Rightarrow> string option" where
  "getRootDomain P url =
     (case P url of
        None \<Rightarrow> None
      | Some hostname \<Rightarrow>
          (let parts = split_on (CHR ''.'') hostname in
           if length parts \<ge> 3 \<and> parts ! (length parts - 2) \<in> set second_level_labels
           then Some (join ''.'' (slice_last 3 parts))
           else Some (join ''.'' (slice_last 2 parts))))"

text \<open>
  The reduction as the specification words it: keep the last two labels of the host name,
  or the last three when the second-to-last label is one of the listed ones. Keeping the
  last \<open>n\<close> labels of a host name with fewer labels keeps all of them.
\<close>

definition root_domain :: "string \<Rightarrow> string" where
  "root_domain hostname =
     (let labels = split_on (CHR ''.'') hostname;
          n = (if length labels \<ge> 2 \<and> labels ! (length labels - 2) \<in> set second_level_labels
               then 3 else 2)
      in join ''.'' (drop (length labels - n) labels))"

section \<open>History records and the history source\<close>

text \<open>
  A history record as \<open>chrome.history.search\<close> returns it. The field \<open>visitCount\<close> of a
  record is called \<open>itemVisitCount\<close> here, because the per-domain data of the statistics
  page has a field \<open>visitCount\<close> of its own. A visit as \<open>chrome.history.getVisits\<close> returns
  it; only its transition kind is read. The history source is a parameter:
  \<open>V url\<close> is the list of visits the lookup resolves with, or \<open>None\<close> when it rejects.
\<close>

record history_item =
  url :: string
  title :: "string option"
  lastVisitTime :: nat
  itemVisitCount :: nat

record visit =
  transition :: string

type_synonym visits_lookup = "string \<Rightarrow> visit list option"

section \<open>Domain statistics (statistics page, processDomainData)\<close>

text \<open>
  A value of a dynamically typed field: a number (a double, here a pair of a significand
  and an exponent) or a string.
\<close>

datatype js_value = JsNumber "int \<times> int" | JsString string

fun is_number :: "js_value \<Rightarrow> bool" where
  "is_number (JsNumber x) = True"
| "is_number (JsString s) = False"

text \<open>
  The per-domain object. \<open>urls\<close> is a \<open>Set\<close> (its elements in insertion order) until
  \<open>delete data.urls\<close> removes the field; \<open>percentage\<close> is absent until it is assigned.
\<close>

record domain_data =
  domain :: string
  visitCount :: nat
  urls :: "string list option"
  typedCount :: nat
  clickedCount :: nat
  percentage :: "js_value option"

text \<open>\<open>domainMap\<close>, a \<open>Map\<close>: its keys in insertion order and the lookup.\<close>

record domain_map =
  map_keys :: "string list"
  map_get :: "string \<Rightarrow> domain_data option"

definition empty_map :: domain_map where
  "empty_map = \<lparr>map_keys = [], map_get = (\<lambda>k. None)\<rparr>"

definition map_set :: "string \<Rightarrow> domain_data \<Rightarrow> domain_map \<Rightarrow> domain_map" where
  "map_set k v m =
     \<lparr>map_keys = (if map_get m k = None then map_keys m @ [k] else map_keys m),
      map_get = (map_get m)(k \<mapsto> v)\<rparr>"

definition map_values :: "domain_map \<Rightarrow> domain_data list" where
  "map_values m = concat (map (\<lambda>k. case map_get m k of None \<Rightarrow> [] | Some v \<Rightarrow> [v]) (map_keys m))"

definition set_add :: "string \<Rightarrow> string list \<Rightarrow> string list" where
  "set_add u us = (if u \<in> set us then us else us @ [u])"

text \<open>The body of the first \<open>forEach\<close>: one history record is added to its domain.\<close>

definition fresh_domain :: "string \<Rightarrow> domain_data" where
  "fresh_domain d =
     \<lparr>domain = d, visitCount = 0, urls = Some [], typedCount = 0, clickedCount = 0,
      percentage = None\<rparr>"

definition count_item :: "string \<Rightarrow> domain_data \<Rightarrow> domain_data" where
  "count_item u domainData =
     domainData\<lparr>visitCount := visitCount domainData + 1,
                urls := map_option (set_add u) (urls domainData)\<rparr>"

definition group_item :: "(string \<Rightarrow> string option) \<Rightarrow> domain_map \<Rightarrow> history_item \<Rightarrow> domain_map" where
  "group_item P domainMap item =
     (case getRootDomain P (url item) of
        None \<Rightarrow> domainMap
      | Some d \<Rightarrow>
          if d = [] then domainMap
          else
            (let m1 = (if map_get domainMap d = None then map_set d (fresh_domain d) domainMap
                       else domainMap)
             in case map_get m1 d of
                  None \<Rightarrow> m1
                | Some domainData \<Rightarrow> map_set d (count_item (url item) domainData) m1))"

text \<open>The second loop: the visits of every URL of a domain are counted as typed or
  clicked; a lookup that rejects is logged and contributes nothing.\<close>

definition count_visit :: "nat \<times> nat \<Rightarrow> visit \<Rightarrow> nat \<times> nat" where
  "count_visit tc v =
     (if transition v = ''typed'' then (fst tc + 1, snd tc) else (fst tc, snd tc + 1))"

definition count_url :: "visits_lookup \<Rightarrow> nat \<times> nat \<Rightarrow> string \<Rightarrow> nat \<times> nat" where
  "count_url V tc u = (case V u of None \<Rightarrow> tc | Some visits \<Rightarrow> foldl count_visit tc visits)"

text \<open>
  \<open>pct v t\<close> stands for the platform's \<open>((v / t) * 100).toFixed(1)\<close>: a division and a
  multiplication of doubles and the rendering of the result as a string.
\<close>

definition finish_domain ::
  "visits_lookup \<Rightarrow> (nat \<Rightarrow> nat \<Rightarrow> string) \<Rightarrow> nat \<Rightarrow> domain_data \<Rightarrow> domain_data" where
  "finish_domain V pct totalVisits data =
     (let tc = foldl (count_url V) (0, 0) (case urls data of None \<Rightarrow> [] | Some us \<Rightarrow> us)
      in data\<lparr>typedCount := fst tc, clickedCount := snd tc,
               percentage := Some (JsString (pct (visitCount data) totalVisits)),
               urls := None\<rparr>)"

text \<open>The whole function; the final \<open>sort\<close> is stable and descending by \<open>visitCount\<close>.\<close>

definition processDomainData ::
  "(string \<Rightarrow> string option) \<Rightarrow> visits_lookup \<Rightarrow> (nat \<Rightarrow> nat \<Rightarrow> string)
     \<Rightarrow> history_item list \<Rightarrow> domain_data list" where
  "processDomainData P V pct historyItems =
     (let totalVisits = length historyItems;
          domainMap = foldl (group_item P) empty_map historyItems
      in sort_key (\<lambda>a. - int (visitCount a))
           (map (finish_domain V pct totalVisits) (map_values domainMap)))"

section \<open>Doubles of the platform, as far as percentages need them\<close>

text \<open>
  An instance of \<open>pct\<close> for concrete inputs. A positive finite double is a pair \<open>(m, e)\<close> of
  a significand and an exponent and denotes \<open>m * 2 ^ e\<close>. \<open>nearest_double p q\<close> is the
  double nearest to the fraction \<open>p / q\<close> of two positive integers (a significand of 53
  bits, ties to the even one); exponent limits are left out, so the definitions are meant
  for the normal range only. \<open>toFixed1\<close> is \<open>Number.prototype.toFixed(1)\<close> on such a
  double below \<open>10^21\<close>: the integer \<open>n\<close> with \<open>n / 10\<close> nearest to the exact value, the
  larger one at a tie, written with one digit after the point.
\<close>

type_synonym double = "int \<times> int"

function bit_length :: "int \<Rightarrow> int" where
  "bit_length n = (if n \<le> 0 then 0 else 1 + bit_length (n div 2))"
  by pat_completeness auto
termination
  by (relation "measure nat") auto

definition round_half_even :: "int \<Rightarrow> int \<Rightarrow> int" where
  "round_half_even num den =
     (let f = num div den; r = num mod den
      in if 2 * r < den then f else if 2 * r > den then f + 1 else if even f then f else f + 1)"

definition nearest_double :: "int \<Rightarrow> int \<Rightarrow> double" where
  "nearest_double p q =
     (if p \<le> 0 \<or> q \<le> 0 then (0, 0)
      else
        (let e0 = bit_length p - bit_length q - 53;
             num = (if e0 < 0 then p * 2 ^ nat (- e0) else p);
             den = (if e0 < 0 then q else q * 2 ^ nat e0)
         in if num \<ge> 2 ^ 53 * den
            then (round_half_even num (2 * den), e0 + 1)
            else (round_half_even num den, e0)))"

definition double_div :: "nat \<Rightarrow> nat \<Rightarrow> double" where
  "double_div v t = nearest_double (int v) (int t)"

definition double_times :: "double \<Rightarrow> int \<Rightarrow> double" where
  "double_times x k =
     (let r = nearest_double (fst x * k) 1 in (fst r, snd r + snd x))"

definition digit :: "nat \<Rightarrow> char" where
  "digit d = ''0123456789'' ! d"

fun decimal :: "nat \<Rightarrow> string" where
  "decimal n = (if n < 10 then [digit n] else decimal (n div 10) @ [digit (n mod 10)])"

definition toFixed1 :: "double \<Rightarrow> string" where
  "toFixed1 x =
     (let m = fst x; e = snd x;
          n = nat (if e \<ge> 0 then 10 * m * 2 ^ nat e
                   else (20 * m + 2 ^ nat (- e)) div (2 * 2 ^ nat (- e)))
      in decimal (n div 10) @ ''.'' @ decimal (n mod 10))"

definition js_percent :: "nat \<Rightarrow> nat \<Rightarrow> string" where
  "js_percent v t = toFixed1 (double_times (double_div v t) 100)"

section \<open>The feed paginator (feed page, loadMoreHistory)\<close>

record feed_state =
  currentOffset :: nat
  isLoading :: bool
  hasMore :: bool
  allHistory :: "history_item list"
  filteredCount :: nat

definition batchSize :: nat where
  "batchSize = 20"

text \<open>
  What a call does to the world outside \<open>state\<close> is recorded as a trace of events, in the
  order of the source: the loading indicator, a batch fetch (\<open>getHistoryBatch\<close>, with its
  offset and limit), a visit lookup of the history source, the rendering of cards, the
  empty-state notice, and a logged error.
\<close>

datatype event =
    ShowLoading
  | HideLoading
  | BatchFetch nat nat
  | GetVisits string
  | RenderCards "history_item list"
  | ShowEmptyState
  | LogError

type_synonym feed = "feed_state \<times> event list"

text \<open>\<open>getHistoryBatch(offset, limit)\<close> is \<open>state.allHistory.slice(offset, offset + limit)\<close>.\<close>

definition getHistoryBatch :: "feed_state \<Rightarrow> nat \<Rightarrow> nat \<Rightarrow> history_item list" where
  "getHistoryBatch s offset limit = take limit (drop offset (allHistory s))"

text \<open>
  \<open>loadMoreHistory\<close> is asynchronous, on a single thread. Its first part runs without
  interruption up to \<open>await Promise.all(...)\<close>: by then every \<open>getVisits\<close> lookup of the
  batch has been issued. The call is then either over (\<open>Returned\<close>) or suspended with its
  batch (\<open>Awaiting\<close>); other calls may run before it resumes. A \<open>return\<close> inside the
  \<open>try\<close> block still runs the \<open>finally\<close> block.
\<close>

datatype call = Returned | Awaiting "history_item list"

definition loadMoreHistory_start :: "feed \<Rightarrow> feed \<times> call" where
  "loadMoreHistory_start f =
     (let s = fst f; tr = snd f in
      if isLoading s \<or> \<not> hasMore s then (f, Returned)
      else
        (let s1 = s\<lparr>isLoading := True\<rparr>;
             tr1 = tr @ [ShowLoading];
             historyItems = getHistoryBatch s1 (currentOffset s1) batchSize;
             tr2 = tr1 @ [BatchFetch (currentOffset s1) batchSize]
         in if length historyItems = 0
            then ((s1\<lparr>hasMore := False, isLoading := False\<rparr>,
                   tr2 @ [HideLoading] @ (if currentOffset s1 = 0 then [ShowEmptyState] else [])
                       @ [HideLoading]),
                  Returned)
            else ((s1, tr2 @ map (\<lambda>item. GetVisits (url item)) historyItems),
                  Awaiting historyItems)))"

text \<open>\<open>Promise.all\<close> over the lookups: all of them resolve, or the whole rejects.\<close>

fun withVisitCount :: "visits_lookup \<Rightarrow> history_item list \<Rightarrow> history_item list option" where
  "withVisitCount V [] = Some []"
| "withVisitCount V (item # items) =
     (case V (url item) of
        None \<Rightarrow> None
      | Some visits \<Rightarrow>
          (case withVisitCount V items of
             None \<Rightarrow> None
           | Some rest \<Rightarrow> Some (item\<lparr>itemVisitCount := length visits\<rparr> # rest)))"

text \<open>The rest of the call, run when the lookups have settled; it reads \<open>state\<close> as it
  is then.\<close>

definition loadMoreHistory_resume :: "visits_lookup \<Rightarrow> history_item list \<Rightarrow> feed \<Rightarrow> feed" where
  "loadMoreHistory_resume V historyItems f =
     (let s = fst f; tr = snd f in
      case withVisitCount V historyItems of
        None \<Rightarrow> (s\<lparr>isLoading := False\<rparr>, tr @ [LogError, HideLoading])
      | Some itemsWithVisitCount \<Rightarrow>
          (let s1 = s\<lparr>currentOffset := currentOffset s + length historyItems\<rparr>;
               s2 = (if currentOffset s1 \<ge> length (allHistory s1) then s1\<lparr>hasMore := False\<rparr>
                     else s1)
           in (s2\<lparr>isLoading := False\<rparr>, tr @ [RenderCards itemsWithVisitCount, HideLoading])))"

text \<open>A call that is left to finish before anything else runs, and the batch it shows:
  the list given to \<open>renderCards\<close>, or the empty list when nothing is rendered.\<close>

definition loadMoreHistory :: "visits_lookup \<Rightarrow> feed \<Rightarrow> feed \<times> history_item list" where
  "loadMoreHistory V f =
     (case loadMoreHistory_start f of
        (f1, Returned) \<Rightarrow> (f1, [])
      | (f1, Awaiting historyItems) \<Rightarrow>
          (loadMoreHistory_resume V historyItems f1,
           case withVisitCount V historyItems of None \<Rightarrow> [] | Some shown \<Rightarrow> shown))"

definition batch_fetches :: "event list \<Rightarrow> nat" where
  "batch_fetches tr = length (filter (\<lambda>ev. case ev of BatchFetch offset limit \<Rightarrow> True | _ \<Rightarrow> False) tr)"

definition visit_lookups :: "event list \<Rightarrow> nat" where
  "visit_lookups tr = length (filter (\<lambda>ev. case ev of GetVisits u \<Rightarrow> True | _ \<Rightarrow> False) tr)"

section \<open>The chat store (feed page, chatHistories)\<close>

text \<open>
  A message is a pair of a role and a text. \<open>chatHistories\<close> is an object keyed by the page
  URL; an entry holds the messages and the fetched page content. The store is an
  association list, read with \<open>map_of\<close>.
\<close>

type_synonym message = "string \<times> string"

type_synonym chat_entry = "message list \<times> string option"

type_synonym chat_store = "(string \<times> chat_entry) list"

record chat_state =
  currentPage :: "history_item option"
  pageContent :: "string option"
  messages :: "message list"
  isTyping :: bool

text \<open>The dialogs a function opens: \<open>confirm\<close> and \<open>alert\<close> of the platform.\<close>

datatype dialog = ConfirmClearChat | ConfirmClearAll nat | AlertNoChats | AlertAllCleared

definition saveChatHistory :: "chat_state \<times> chat_store \<Rightarrow> chat_state \<times> chat_store" where
  "saveChatHistory c =
     (case currentPage (fst c) of
        None \<Rightarrow> c
      | Some page \<Rightarrow>
          (fst c, AList.update (url page) (messages (fst c), pageContent (fst c)) (snd c)))"

text \<open>\<open>clearCurrentChat\<close> and \<open>clearAllChats\<close>; \<open>answer\<close> is what the user answers if
  the \<open>confirm\<close> dialog is opened. The changes to the page itself are left out.\<close>

definition clearCurrentChat ::
  "bool \<Rightarrow> chat_state \<times> chat_store \<Rightarrow> (chat_state \<times> chat_store) \<times> dialog list" where
  "clearCurrentChat answer c =
     (case currentPage (fst c) of
        None \<Rightarrow> (c, [])
      | Some page \<Rightarrow>
          if answer
          then (((fst c)\<lparr>messages := [], pageContent := None\<rparr>, AList.delete (url page) (snd c)),
                [ConfirmClearChat])
          else (c, [ConfirmClearChat]))"

definition clearAllChats ::
  "bool \<Rightarrow> chat_state \<times> chat_store \<Rightarrow> (chat_state \<times> chat_store) \<times> dialog list" where
  "clearAllChats answer c =
     (let chatCount = length (remdups (map fst (snd c))) in
      if chatCount = 0 then (c, [AlertNoChats])
      else if answer then ((fst c, []), [ConfirmClearAll chatCount, AlertAllCleared])
      else (c, [ConfirmClearAll chatCount]))"

section \<open>Data for concrete inputs\<close>

definition item1 :: history_item where
  "item1 = \<lparr>url = ''https://example.com/'', title = Some ''Example'', lastVisitTime = 1700000000000,
            itemVisitCount = 0\<rparr>"

definition visits1 :: visits_lookup where
  "visits1 = map_of [(''https://example.com/'', [\<lparr>transition = ''typed''\<rparr>, \<lparr>transition = ''link''\<rparr>,
                      \<lparr>transition = ''link''\<rparr>])]"

definition feed0 :: feed where
  "feed0 = (\<lparr>currentOffset = 0, isLoading = False, hasMore = True, allHistory = [item1],
            filteredCount = 0\<rparr>, [])"

definition chat1 :: chat_state where
  "chat1 = \<lparr>currentPage = Some item1, pageContent = Some ''Example Domain'',
            messages = [(''user'', ''What is this page?''), (''assistant'', ''An example.'')],
            isTyping = False\<rparr>"

definition store1 :: chat_store where
  "store1 = [(''https://example.com/'', ([(''user'', ''What is this page?'')], Some ''Example Domain'')),
             (''https://site.com/app/logout'', ([(''user'', ''Hello'')], None))]"

section \<open>Facts about the regular-expression model\<close>



lemma and_then_Returns [simp]: "and_then t (Returns ts) = Returns (t # ts)"
  by (simp add: and_then_def)



lemma replace_char_Nil [simp]: "replace_char c r [] = []"
  by (simp add: replace_char_def)


lemma escape_chars_Nil [simp]: "escape_chars cs [] = []"
  by (simp add: escape_chars_def)

lemma pattern_source_Nil [simp]: "pattern_source [] = []"
  by (simp add: pattern_source_def)



















lemma domain_body_Nil [simp]: "domain_body [] = []"
  by (simp add: domain_body_def)
















section \<open>Facts about root domains\<close>

lemma split_on_nonempty: "split_on c s \<noteq> []"
  by (induction s) (auto split: list.splits)

lemma join_Cons: "ps \<noteq> [] \<Longrightarrow> join sep (p # ps) = p @ sep @ join sep ps"
  by (cases ps) auto

lemma join_split: "join [c] (split_on c s) = s"
proof (induction s)
  case Nil
  show ?case by simp
next
  case (Cons x xs)
  show ?case
  proof (cases "x = c")
    case True
    with Cons show ?thesis by (simp add: join_Cons split_on_nonempty)
  next
    case False
    obtain p ps where sp: "split_on c xs = p # ps"
      using split_on_nonempty [of c xs] by (cases "split_on c xs") auto
    with Cons have "join [c] (p # ps) = xs" by simp
    then have "join [c] ((x # p) # ps) = x # xs" by (cases ps) auto
    with False sp show ?thesis by simp
  qed
qed

lemma join_drop_suffix: "suffix (join sep (drop k ps)) (join sep ps)"
proof (induction ps arbitrary: k)
  case Nil
  show ?case by simp
next
  case (Cons p ps)
  show ?case
  proof (cases k)
    case 0
    then show ?thesis by simp
  next
    case (Suc j)
    have "suffix (join sep (drop j ps)) (join sep ps)" by (rule Cons.IH)
    moreover have "suffix (join sep ps) (join sep (p # ps))"
      by (cases ps) (auto simp: suffix_def)
    ultimately show ?thesis using Suc by (auto intro: suffix_order.trans)
  qed
qed

lemma getRootDomain_root_domain:
  "getRootDomain P u = map_option root_domain (P u)"
proof (cases "P u")
  case None
  then show ?thesis by (simp add: getRootDomain_def)
next
  case (Some h)
  define parts where "parts = split_on (CHR ''.'') h"
  have ne: "parts \<noteq> []" by (simp add: parts_def split_on_nonempty)
  have two: "length parts = 2 \<Longrightarrow> drop (length parts - 3) parts = drop (length parts - 2) parts"
    by simp
  have one: "length parts < 2 \<Longrightarrow> drop (length parts - 3) parts = drop (length parts - 2) parts"
    by simp
  show ?thesis
    using Some two one
    by (auto simp: getRootDomain_def root_domain_def Let_def slice_last_def parts_def [symmetric])
qed

section \<open>Facts about the feed paginator\<close>

lemma start_guard:
  "isLoading (fst f) \<or> \<not> hasMore (fst f) \<Longrightarrow> loadMoreHistory_start f = (f, Returned)"
  by (simp add: loadMoreHistory_start_def)

lemma feed1: "fst (loadMoreHistory visits1 feed0) =
    (\<lparr>currentOffset = 1, isLoading = False, hasMore = False, allHistory = [item1], filteredCount = 0\<rparr>,
     [ShowLoading, BatchFetch 0 20, GetVisits ''https://example.com/'',
      RenderCards [item1\<lparr>itemVisitCount := 3\<rparr>], HideLoading])"
  by (simp add: loadMoreHistory_def loadMoreHistory_start_def loadMoreHistory_resume_def feed0_def
      getHistoryBatch_def batchSize_def item1_def visits1_def Let_def)

lemma batch_fetches_append: "batch_fetches (xs @ ys) = batch_fetches xs + batch_fetches ys"
  by (simp add: batch_fetches_def)

lemma batch_fetches_lookups: "batch_fetches (map (\<lambda>item. GetVisits (url item)) items) = 0"
  by (induction items) (simp_all add: batch_fetches_def)

lemma start_ready:
  assumes "\<not> isLoading s" "hasMore s"
  shows "isLoading (fst (fst (loadMoreHistory_start (s, tr))))
           \<or> \<not> hasMore (fst (fst (loadMoreHistory_start (s, tr))))"
    and "batch_fetches (snd (fst (loadMoreHistory_start (s, tr)))) = batch_fetches tr + 1"
  using assms
  by (auto simp: loadMoreHistory_start_def Let_def batch_fetches_append batch_fetches_lookups
      batch_fetches_def)

section \<open>Properties of the rule matcher\<close>

text \<open>
  C2. For every rule set and every input string that fails to parse as a URL, \<open>matches\<close>
  returns \<open>false\<close>: it does not throw and it does not blacklist the string.
\<close>

theorem matches_unparsable_false:
  assumes "P u = None"
  shows "matches P rs u = Returns False"
  using assms by (simp add: matches_def)

theorem matches_unparsable_false_witness:
  "example_urls ''not a url'' = None
   \<and> matches example_urls \<lparr>domains = [''*''], patterns = ['''']\<rparr> ''not a url''
        = Returns False"
proof -
  have a: "example_urls ''not a url'' = None" by (simp add: example_urls_def)
  from a matches_unparsable_false [of example_urls "''not a url''", OF a] show ?thesis by blast
qed









section \<open>Properties of the root-domain reduction\<close>

text \<open>
  C5. For every URL whose host name parses, \<open>getRootDomain\<close> keeps the last two labels of
  the host name, or the last three when the second-to-last label is one of \<open>co\<close>, \<open>com\<close>,
  \<open>org\<close>, \<open>ac\<close>, \<open>gov\<close>, \<open>edu\<close>, \<open>net\<close>; what it returns is a suffix of the host name.
  \<open>www.example.co.uk\<close> gives \<open>example.co.uk\<close>, \<open>blog.example.com\<close> gives \<open>example.com\<close>, and
  \<open>example.com\<close> gives \<open>example.com\<close>.
\<close>

theorem getRootDomain_reduction:
  "(P u = Some hostname \<longrightarrow>
      getRootDomain P u = Some (root_domain hostname) \<and> suffix (root_domain hostname) hostname)
   \<and> getRootDomain example_urls ''https://www.example.co.uk/'' = Some ''example.co.uk''
   \<and> getRootDomain example_urls ''https://blog.example.com/post'' = Some ''example.com''
   \<and> getRootDomain example_urls ''https://example.com/'' = Some ''example.com''"
proof -
  have "suffix (root_domain hostname) hostname"
    using join_drop_suffix [of "''.''" _ "split_on (CHR ''.'') hostname"]
      join_split [of "CHR ''.''" hostname]
    by (simp add: root_domain_def Let_def)
  moreover have "getRootDomain example_urls ''https://www.example.co.uk/'' = Some ''example.co.uk''"
    by (simp add: getRootDomain_def example_urls_def second_level_labels_def slice_last_def)
  moreover have "getRootDomain example_urls ''https://blog.example.com/post'' = Some ''example.com''"
    by (simp add: getRootDomain_def example_urls_def second_level_labels_def slice_last_def)
  moreover have "getRootDomain example_urls ''https://example.com/'' = Some ''example.com''"
    by (simp add: getRootDomain_def example_urls_def second_level_labels_def slice_last_def)
  ultimately show ?thesis by (simp add: getRootDomain_root_domain)
qed

text \<open>The theorem at a URL of \<open>www.example.co.uk\<close>.\<close>

theorem getRootDomain_reduction_witness:
  "example_urls ''https://www.example.co.uk/'' = Some ''www.example.co.uk''
   \<and> root_domain ''www.example.co.uk'' = ''example.co.uk''
   \<and> getRootDomain example_urls ''https://www.example.co.uk/'' = Some (root_domain ''www.example.co.uk'')
   \<and> suffix (root_domain ''www.example.co.uk'') ''www.example.co.uk''"
proof -
  have a: "example_urls ''https://www.example.co.uk/'' = Some ''www.example.co.uk''"
    by (simp add: example_urls_def)
  have b: "root_domain ''www.example.co.uk'' = ''example.co.uk''"
    by (simp add: root_domain_def second_level_labels_def)
  from a b getRootDomain_reduction [of example_urls "''https://www.example.co.uk/''" "''www.example.co.uk''"]
  show ?thesis by blast
qed

section \<open>Properties of the feed paginator\<close>

text \<open>
  C7. Once the paginator is exhausted (\<open>hasMore\<close> is false), a call of \<open>loadMoreHistory\<close>
  returns at once: it shows the empty batch, the state and the trace are what they were,
  so no visit lookup and no batch fetch is issued; and this stays so for any number of
  further calls.
\<close>

theorem exhausted_idempotent:
  assumes "\<not> hasMore s"
  shows "loadMoreHistory_start (s, tr) = ((s, tr), Returned)
    \<and> loadMoreHistory V (s, tr) = ((s, tr), [])
    \<and> ((\<lambda>f. fst (loadMoreHistory V f)) ^^ n) (s, tr) = (s, tr)"
proof -
  have 1: "loadMoreHistory_start (s, tr) = ((s, tr), Returned)"
    using assms by (simp add: start_guard)
  then have 2: "loadMoreHistory V (s, tr) = ((s, tr), [])"
    by (simp add: loadMoreHistory_def)
  have "((\<lambda>f. fst (loadMoreHistory V f)) ^^ n) (s, tr) = (s, tr)"
    by (induction n) (simp_all add: 2)
  with 1 2 show ?thesis by blast
qed

text \<open>The theorem at the state a feed of one record is in after its first batch.\<close>

theorem exhausted_idempotent_witness:
  "\<not> hasMore (fst (fst (loadMoreHistory visits1 feed0)))
   \<and> loadMoreHistory visits1 (fst (loadMoreHistory visits1 feed0))
       = (fst (loadMoreHistory visits1 feed0), [])
   \<and> loadMoreHistory_start (fst (loadMoreHistory visits1 feed0))
       = (fst (loadMoreHistory visits1 feed0), Returned)"
proof -
  obtain s tr where f: "fst (loadMoreHistory visits1 feed0) = (s, tr)"
    by (cases "fst (loadMoreHistory visits1 feed0)") blast
  have a: "\<not> hasMore s" using f by (auto simp: feed1)
  from a f exhausted_idempotent [of s tr visits1 1, OF a] show ?thesis by simp
qed

text \<open>
  C8. While the loading flag is set, a call of \<open>loadMoreHistory\<close> returns at once and
  leaves the state and the trace as they were. So when a call is made in a ready state
  and a second call follows before the first has resumed, the second one does nothing,
  and the two together issue exactly one batch fetch.
\<close>

theorem loading_guard:
  "(isLoading s \<longrightarrow> loadMoreHistory_start (s, tr) = ((s, tr), Returned))
   \<and> (\<not> isLoading s' \<and> hasMore s' \<longrightarrow>
        loadMoreHistory_start (fst (loadMoreHistory_start (s', tr')))
          = (fst (loadMoreHistory_start (s', tr')), Returned)
        \<and> batch_fetches (snd (fst (loadMoreHistory_start (fst (loadMoreHistory_start (s', tr'))))))
          = batch_fetches tr' + 1)"
proof -
  have 1: "isLoading s \<Longrightarrow> loadMoreHistory_start (s, tr) = ((s, tr), Returned)"
    by (simp add: start_guard)
  have 2: "loadMoreHistory_start (fst (loadMoreHistory_start (s', tr')))
          = (fst (loadMoreHistory_start (s', tr')), Returned)"
    if "\<not> isLoading s'" "hasMore s'"
    using start_ready(1) [OF that, of tr'] by (rule start_guard)
  have 3: "batch_fetches (snd (fst (loadMoreHistory_start (fst (loadMoreHistory_start (s', tr'))))))
          = batch_fetches tr' + 1"
    if "\<not> isLoading s'" "hasMore s'"
    using 2 [OF that] start_ready(2) [OF that, of tr'] by simp
  from 1 2 3 show ?thesis by blast
qed

text \<open>The theorem at the fresh feed of one record, and at the state its first call is
  suspended in.\<close>

theorem loading_guard_witness:
  "\<not> isLoading (fst feed0) \<and> hasMore (fst feed0)
   \<and> isLoading (fst (fst (loadMoreHistory_start feed0)))
   \<and> loadMoreHistory_start (fst (loadMoreHistory_start feed0))
       = (fst (loadMoreHistory_start feed0), Returned)
   \<and> batch_fetches (snd (fst (loadMoreHistory_start (fst (loadMoreHistory_start feed0))))) = 1"
proof -
  have a: "\<not> isLoading (fst feed0)" "hasMore (fst feed0)" by (simp_all add: feed0_def)
  have b: "isLoading (fst (fst (loadMoreHistory_start feed0)))"
    by (simp add: loadMoreHistory_start_def feed0_def getHistoryBatch_def batchSize_def Let_def)
  have c: "batch_fetches (snd feed0) = 0" by (simp add: feed0_def batch_fetches_def)
  let ?f1 = "fst (loadMoreHistory_start feed0)"
  note t = loading_guard [of "fst ?f1" "snd ?f1" "fst feed0" "snd feed0", unfolded prod.collapse]
  from t b have 1: "loadMoreHistory_start ?f1 = (?f1, Returned)" by blast
  from t a have 2: "batch_fetches (snd (fst (loadMoreHistory_start ?f1)))
      = batch_fetches (snd feed0) + 1" by blast
  from a b 1 2 c show ?thesis by simp
qed

section \<open>Properties of the chat store\<close>

text \<open>
  C9. Both clear functions open a \<open>confirm\<close> dialog themselves. When the user confirms,
  \<open>clearCurrentChat\<close> removes the entry of the current page's URL and leaves the entry of
  every other URL as it was, and \<open>clearAllChats\<close> leaves a store in which no URL has an
  entry. When the user declines, the store and the chat state are unchanged.
\<close>

theorem clear_chats:
  "(currentPage cs = Some page \<longrightarrow>
      map_of (snd (fst (clearCurrentChat True (cs, hs)))) = (map_of hs)(url page := None)
      \<and> fst (clearCurrentChat False (cs, hs)) = (cs, hs)
      \<and> snd (clearCurrentChat answer (cs, hs)) = [ConfirmClearChat])
   \<and> map_of (snd (fst (clearAllChats True (cs, hs)))) k = None
   \<and> fst (clearAllChats False (cs, hs)) = (cs, hs)
   \<and> (hs \<noteq> [] \<longrightarrow>
        snd (fst (clearAllChats True (cs, hs))) = []
        \<and> (\<exists>n. hd (snd (clearAllChats answer (cs, hs))) = ConfirmClearAll n))"
proof -
  have 1: "map_of (snd (fst (clearCurrentChat True (cs, hs)))) = (map_of hs)(url page := None)"
    "fst (clearCurrentChat False (cs, hs)) = (cs, hs)"
    "snd (clearCurrentChat answer (cs, hs)) = [ConfirmClearChat]"
    if "currentPage cs = Some page"
    using that by (simp_all add: clearCurrentChat_def delete_conv')
  have 2: "map_of (snd (fst (clearAllChats True (cs, hs)))) k = None"
    by (cases hs) (auto simp: clearAllChats_def Let_def)
  have 3: "fst (clearAllChats False (cs, hs)) = (cs, hs)"
    by (simp add: clearAllChats_def Let_def)
  have 4: "snd (fst (clearAllChats True (cs, hs))) = []"
    "\<exists>n. hd (snd (clearAllChats answer (cs, hs))) = ConfirmClearAll n" if "hs \<noteq> []"
    using that by (simp_all add: clearAllChats_def Let_def)
  from 1 2 3 4 show ?thesis by blast
qed

text \<open>The theorem at a store of two transcripts, the chat of the first one open.\<close>

theorem clear_chats_witness:
  "currentPage chat1 = Some item1 \<and> store1 \<noteq> []
   \<and> map_of (snd (fst (clearCurrentChat True (chat1, store1)))) ''https://example.com/'' = None
   \<and> map_of (snd (fst (clearCurrentChat True (chat1, store1)))) ''https://site.com/app/logout''
       = Some ([(''user'', ''Hello'')], None)
   \<and> snd (fst (clearAllChats True (chat1, store1))) = []"
proof -
  have a: "currentPage chat1 = Some item1" by (simp add: chat1_def)
  have b: "store1 \<noteq> []" by (simp add: store1_def)
  have c: "url item1 = ''https://example.com/''" by (simp add: item1_def)
  have d: "map_of store1 ''https://site.com/app/logout'' = Some ([(''user'', ''Hello'')], None)"
    by (simp add: store1_def)
  from a b c d clear_chats [of chat1 item1 store1 True] show ?thesis by simp
qed

text \<open>
  The store does not clear without asking: when the user declines, \<open>clearCurrentChat\<close> has
  opened its dialog and the entry of the current URL is still there, and \<open>clearAllChats\<close>
  leaves every entry in place.
\<close>

theorem clear_chats_counterexample:
  "snd (clearCurrentChat False (chat1, store1)) = [ConfirmClearChat]
   \<and> map_of (snd (fst (clearCurrentChat False (chat1, store1)))) ''https://example.com/''
       = Some ([(''user'', ''What is this page?'')], Some ''Example Domain'')
   \<and> snd (clearAllChats False (chat1, store1)) = [ConfirmClearAll 2]
   \<and> snd (fst (clearAllChats False (chat1, store1))) = store1"
  by (simp add: clearCurrentChat_def clearAllChats_def chat1_def store1_def Let_def)

end
